theory Spec2Isabelle
  imports Main "HOL-Library.Word"
begin

section \<open>Go errors\<close>

text \<open>
  A Go \<open>error\<close> is an interface value; the variants below are the concrete errors the two
  source files create, inspect or receive: plain errors, \<open>os.ErrNotExist\<close>, an
  \<open>*os.PathError\<close> around another error, an \<open>*exec.ExitError\<close> with its captured
  standard error, \<open>context.DeadlineExceeded\<close>, and the wrapper that
  \<open>errors.Wrap\<close>/\<open>errors.Wrapf\<close> of \<open>github.com/pkg/errors\<close> builds.
  A nil error is \<open>None\<close> of \<open>error option\<close>.
\<close>

datatype error =
    ErrorString string
  | ErrNotExist
  | PathError string string error
  | ExitError string string
  | DeadlineExceeded
  | WithMessage error string

text \<open>\<open>err.Error()\<close>: the text of an error.\<close>

fun Error :: "error \<Rightarrow> string" where
  "Error (ErrorString s) = s"
| "Error ErrNotExist = ''file does not exist''"
| "Error (PathError opn path e) = opn @ '' '' @ path @ '': '' @ Error e"
| "Error (ExitError st serr) = st"
| "Error DeadlineExceeded = ''context deadline exceeded''"
| "Error (WithMessage e m) = m @ '': '' @ Error e"

text \<open>\<open>errors.Wrap(err, msg)\<close> for a non-nil \<open>err\<close> (the source never wraps nil).\<close>

definition Wrap :: "error \<Rightarrow> string \<Rightarrow> error" where
  "Wrap e m = WithMessage e m"

text \<open>\<open>errors.Cause\<close>: strips the wrappers of \<open>errors.Wrap\<close>, and nothing else.\<close>

fun Cause :: "error \<Rightarrow> error" where
  "Cause (WithMessage e m) = Cause e"
| "Cause e = e"

text \<open>\<open>os.IsNotExist\<close>: looks through one \<open>*os.PathError\<close> and compares with
  \<open>os.ErrNotExist\<close>.\<close>

fun underlyingError :: "error \<Rightarrow> error" where
  "underlyingError (PathError opn path e) = e"
| "underlyingError e = e"

definition IsNotExist :: "error \<Rightarrow> bool" where
  "IsNotExist e = (underlyingError e = ErrNotExist)"

text \<open>A call either returns or panics; a panic carries its message.\<close>

datatype 'r outcome = Panic string | Returned 'r

section \<open>The install-config asset\<close>

text \<open>
  The structs of \<open>pkg/types\<close> that \<open>InstallConfig.Generate\<close> fills in. The payloads of
  the three platform variants are declared elsewhere; they are the type parameters
  \<open>'a\<close> (AWS), \<open>'o\<close> (OpenStack) and \<open>'l\<close> (Libvirt). A nil pointer is \<open>None\<close>.
\<close>

record ('a, 'o, 'l) Platform =
  AWS :: "'a option"
  OpenStack :: "'o option"
  Libvirt :: "'l option"

record Admin =
  Email :: string
  Password :: string
  SSHKey :: string

record ClusterNetwork =
  CIDR :: string
  HostSubnetLength :: "32 word"

record Networking =
  Type :: string
  ServiceCIDR :: "nat list \<times> nat"
  ClusterNetworks :: "ClusterNetwork list"

record MachinePool =
  Name :: string
  Replicas :: "64 word option"

record ('a, 'o, 'l) types_InstallConfig =
  ObjectMeta_Name :: string
  ClusterID :: string
  Admin :: Admin
  BaseDomain :: string
  Networking :: Networking
  Machines :: "MachinePool list"
  Platform :: "('a, 'o, 'l) Platform"
  PullSecret :: string

text \<open>\<open>asset.File\<close>: a file name and its bytes.\<close>

record asset_File =
  Filename :: string
  Data :: string

text \<open>The asset itself: two pointers, both nil in a fresh asset.\<close>

record ('a, 'o, 'l) InstallConfig =
  Config :: "('a, 'o, 'l) types_InstallConfig option"
  File :: "asset_File option"

text \<open>
  The dependency table handed to \<open>Generate\<close>: \<open>parents.Get\<close> copies the eight resolved
  dependencies into the local variables, so the table is the record of their contents.
\<close>

record ('a, 'o, 'l) Parents =
  clusterID :: string
  emailAddress :: string
  password :: string
  sshPublicKey :: string
  baseDomain :: string
  clusterName :: string
  pullSecret :: string
  platform :: "('a, 'o, 'l) Platform"

definition installConfigFilename :: string where
  "installConfigFilename = ''install-config.yml''"

text \<open>\<open>parseCIDR("10.3.0.0/16")\<close>: the network address and the prefix length.\<close>

definition defaultServiceCIDR :: "nat list \<times> nat" where
  "defaultServiceCIDR = ([10, 3, 0, 0], 16)"

definition defaultClusterCIDR :: string where
  "defaultClusterCIDR = ''10.2.0.0/16''"

definition defaultHostSubnetLength :: int where
  "defaultHostSubnetLength = 9"

text \<open>The struct literal assigned to \<open>a.Config\<close> first; fields not named are zero.\<close>

definition initialConfig :: "('a, 'o, 'l) Parents \<Rightarrow> ('a, 'o, 'l) types_InstallConfig" where
  "initialConfig p =
     \<lparr> ObjectMeta_Name = clusterName p,
       ClusterID = clusterID p,
       Admin = \<lparr> Email = emailAddress p, Password = password p, SSHKey = sshPublicKey p \<rparr>,
       BaseDomain = baseDomain p,
       Networking = \<lparr> Type = ''OpenshiftSDN'',
                      ServiceCIDR = defaultServiceCIDR,
                      ClusterNetworks = [\<lparr> CIDR = defaultClusterCIDR,
                                            HostSubnetLength = word_of_int defaultHostSubnetLength \<rparr>] \<rparr>,
       Machines = [],
       Platform = \<lparr> AWS = None, OpenStack = None, Libvirt = None \<rparr>,
       PullSecret = pullSecret p \<rparr>"

text \<open>
  The \<open>switch\<close> on the platform: the first non-nil variant in the order AWS, OpenStack,
  Libvirt is copied into the config and fixes the two replica counts; with no variant
  set the code panics.
\<close>

definition selectPlatform ::
  "('a, 'o, 'l) Platform \<Rightarrow> ('a, 'o, 'l) types_InstallConfig
     \<Rightarrow> (('a, 'o, 'l) types_InstallConfig \<times> 64 word \<times> 64 word) outcome" where
  "selectPlatform pf c =
     (if AWS pf \<noteq> None then
        Returned (c\<lparr>Platform := (Platform c)\<lparr>AWS := AWS pf\<rparr>\<rparr>, 3, 3)
      else if OpenStack pf \<noteq> None then
        Returned (c\<lparr>Platform := (Platform c)\<lparr>OpenStack := OpenStack pf\<rparr>\<rparr>, 3, 3)
      else if Libvirt pf \<noteq> None then
        Returned (c\<lparr>Platform := (Platform c)\<lparr>Libvirt := Libvirt pf\<rparr>\<rparr>, 1, 1)
      else Panic ''unknown platform type'')"

text \<open>
  \<open>InstallConfig.Generate\<close>. \<open>Marshal\<close> is \<open>yaml.Marshal\<close>, which may fail. The
  result is the returned error and the asset as the call leaves it, or a panic.
\<close>

definition Generate ::
  "(('a, 'o, 'l) types_InstallConfig \<Rightarrow> error + string) \<Rightarrow> ('a, 'o, 'l) Parents
     \<Rightarrow> ('a, 'o, 'l) InstallConfig
     \<Rightarrow> (error option \<times> ('a, 'o, 'l) InstallConfig) outcome" where
  "Generate Marshal parents a =
     (case selectPlatform (platform parents) (initialConfig parents) of
        Panic msg \<Rightarrow> Panic msg
      | Returned (c, numberOfMasters, numberOfWorkers) \<Rightarrow>
          (let c' = c\<lparr>Machines := [\<lparr> Name = ''master'', Replicas = Some numberOfMasters \<rparr>,
                                     \<lparr> Name = ''worker'', Replicas = Some numberOfWorkers \<rparr>]\<rparr>;
               a1 = a\<lparr>Config := Some c'\<rparr>
           in case Marshal c' of
                Inl err \<Rightarrow> Returned (Some (Wrap err ''failed to Marshal InstallConfig''), a1)
              | Inr data \<Rightarrow>
                  Returned (None, a1\<lparr>File := Some \<lparr> Filename = installConfigFilename,
                                                      Data = data \<rparr>\<rparr>)))"

text \<open>\<open>InstallConfig.Name\<close> and \<open>InstallConfig.Files\<close>.\<close>

definition InstallConfig_Name :: "('a, 'o, 'l) InstallConfig \<Rightarrow> string" where
  "InstallConfig_Name a = ''Install Config''"

definition Files :: "('a, 'o, 'l) InstallConfig \<Rightarrow> asset_File list" where
  "Files a = (case File a of Some f \<Rightarrow> [f] | None \<Rightarrow> [])"

text \<open>
  \<open>InstallConfig.Load\<close>. \<open>FetchByName\<close> is the file fetcher's method and \<open>Unmarshal\<close>
  is \<open>yaml.Unmarshal\<close> into a fresh config. The result is \<open>(found, err)\<close> and the asset
  as the call leaves it.
\<close>

definition Load ::
  "(string \<Rightarrow> error + asset_File) \<Rightarrow> (string \<Rightarrow> error + ('a, 'o, 'l) types_InstallConfig)
     \<Rightarrow> ('a, 'o, 'l) InstallConfig
     \<Rightarrow> (bool \<times> error option) \<times> ('a, 'o, 'l) InstallConfig" where
  "Load FetchByName Unmarshal a =
     (case FetchByName installConfigFilename of
        Inl err \<Rightarrow> (if IsNotExist err then ((False, None), a) else ((False, Some err), a))
      | Inr file \<Rightarrow>
          (case Unmarshal (Data file) of
             Inl err \<Rightarrow> ((False, Some (Wrap err ''failed to unmarshal'')), a)
           | Inr config \<Rightarrow> ((True, None), a\<lparr>File := Some file, Config := Some config\<rparr>)))"

section \<open>The create command\<close>

text \<open>
  What a run does besides returning: the lines it logs through \<open>logrus\<close>, by level, and
  the calls of \<open>time.Sleep\<close>, in seconds. Time is a count of seconds.
\<close>

datatype effect =
    Infof string
  | Debugf string
  | Warningf string
  | LogError string
  | Sleep nat

subsection \<open>runTargetCmd\<close>

text \<open>\<open>strings.Trim(s, cutset)\<close>: drops the characters of the cutset at both ends.\<close>

definition Trim :: "string \<Rightarrow> string \<Rightarrow> string" where
  "Trim s cutset =
     rev (dropWhile (\<lambda>c. c \<in> set cutset) (rev (dropWhile (\<lambda>c. c \<in> set cutset) s)))"

text \<open>
  The asset store and the install directory are the state \<open>'s\<close> of a run; \<open>'a\<close> is the
  type of writable assets. \<open>asset.NewStore\<close>, \<open>Store.Fetch\<close>, \<open>asset.PersistToFile\<close>
  and the assets' \<open>Name\<close> method are declared in other packages and are given by this
  record; \<open>Fetch\<close> and \<open>PersistToFile\<close> return their error and the state they leave.
\<close>

record ('s, 'a) assetOps =
  NewStore :: "error + 's"
  Fetch :: "'a \<Rightarrow> 's \<Rightarrow> error option \<times> 's"
  PersistToFile :: "'a \<Rightarrow> 's \<Rightarrow> error option \<times> 's"
  asset_Name :: "'a \<Rightarrow> string"

text \<open>
  What the loop logs when \<open>Fetch\<close> has failed: the standard error of the command that
  failed, trimmed of newlines, when the cause is an \<open>*exec.ExitError\<close> with a non-empty
  one.
\<close>

definition logStderr :: "error \<Rightarrow> effect list" where
  "logStderr err =
     (case Cause err of
        ExitError st serr \<Rightarrow> (if length serr > 0 then [LogError (Trim serr [CHR 0x0A])] else [])
      | _ \<Rightarrow> [])"

text \<open>
  The loop over the targets. Each asset is fetched, then persisted whether or not the
  fetch failed; the first asset for which either fails ends the loop.
\<close>

fun fetchAndPersist ::
  "('s, 'a) assetOps \<Rightarrow> 'a list \<Rightarrow> 's \<Rightarrow> error option \<times> 's \<times> effect list" where
  "fetchAndPersist ops [] s = (None, s, [])"
| "fetchAndPersist ops (a # targets) s =
     (let (fetched, s1) = Fetch ops a s;
          (err, l1) =
            (case fetched of
               None \<Rightarrow> (None, [])
             | Some e \<Rightarrow> (Some (Wrap e (''failed to fetch '' @ asset_Name ops a)), logStderr e));
          (persisted, s2) = PersistToFile ops a s1
      in case persisted of
           Some e2 \<Rightarrow>
             (let err2 = Wrap e2 (''failed to write asset ('' @ asset_Name ops a @ '') to disk'')
              in case err of
                   Some e \<Rightarrow> (Some e, s2, l1 @ [LogError (Error err2)])
                 | None \<Rightarrow> (Some err2, s2, l1))
         | None \<Rightarrow>
             (case err of
                Some e \<Rightarrow> (Some e, s2, l1)
              | None \<Rightarrow>
                  (let (r, s3, l) = fetchAndPersist ops targets s2 in (r, s3, l1 @ l))))"

text \<open>
  \<open>runTargetCmd(targets...)\<close>, run: the returned error, the state left (none when the
  store could not be created) and the effects. \<open>setupFileHook\<close> is the result of the
  call of that name.
\<close>

definition runTargetCmd ::
  "error option \<Rightarrow> ('s, 'a) assetOps \<Rightarrow> 'a list \<Rightarrow> error option \<times> 's option \<times> effect list" where
  "runTargetCmd setupFileHook ops targets =
     (case setupFileHook of
        Some err \<Rightarrow> (Some (Wrap err ''failed to setup logging hook''), None, [])
      | None \<Rightarrow>
          (case NewStore ops of
             Inl err \<Rightarrow> (Some (Wrap err ''failed to create asset store''), None, [])
           | Inr assetStore \<Rightarrow>
               (let (r, s, l) = fetchAndPersist ops targets assetStore in (r, Some s, l))))"

subsection \<open>Waiting for the Kubernetes API\<close>

text \<open>\<open>strings.Split(s, sep)\<close> for a separator of one character; never empty.\<close>

fun Split :: "string \<Rightarrow> char \<Rightarrow> string list" where
  "Split [] sep = [[]]"
| "Split (c # cs) sep =
     (if c = sep then [] # Split cs sep
      else (case Split cs sep of [] \<Rightarrow> [[c]] | x # xs \<Rightarrow> (c # x) # xs))"

text \<open>\<open>chunks[len(chunks)-1]\<close> of the error text split at colons.\<close>

definition errorSuffix :: "error \<Rightarrow> string" where
  "errorSuffix err = last (Split (Error err) CHR '':'')"

definition logDownsample :: int where
  "logDownsample = 15"

text \<open>The two variables the polling closure updates.\<close>

record pollState =
  silenceRemaining :: int
  previousErrorSuffix :: string

definition initialPollState :: pollState where
  "initialPollState = \<lparr> silenceRemaining = logDownsample, previousErrorSuffix = [] \<rparr>"

text \<open>The \<open>else\<close> branch of the polling closure: a version query has failed with \<open>err\<close>.\<close>

definition queryFailed :: "error \<Rightarrow> pollState \<Rightarrow> pollState \<times> effect list" where
  "queryFailed err st =
     (let silence = silenceRemaining st - 1 in
      if previousErrorSuffix st \<noteq> errorSuffix err then
        (\<lparr> silenceRemaining = logDownsample, previousErrorSuffix = errorSuffix err \<rparr>,
         [Debugf (''Still waiting for the Kubernetes API: '' @ Error err)])
      else if silence = 0 then
        (st\<lparr> silenceRemaining := logDownsample \<rparr>,
         [Debugf (''Still waiting for the Kubernetes API: '' @ Error err)])
      else (st\<lparr> silenceRemaining := silence \<rparr>, []))"

text \<open>The closure run on a sequence of failed queries: what each of them logs.\<close>

fun queriesFailed :: "pollState \<Rightarrow> error list \<Rightarrow> effect list list" where
  "queriesFailed st [] = []"
| "queriesFailed st (err # errs) =
     (let (st', l) = queryFailed err st in l # queriesFailed st' errs)"

fun pollStateAfter :: "pollState \<Rightarrow> error list \<Rightarrow> pollState" where
  "pollStateAfter st [] = st"
| "pollStateAfter st (err # errs) = pollStateAfter (fst (queryFailed err st)) errs"

text \<open>
  \<open>wait.Until(f, 2*time.Second, apiContext.Done())\<close>: the closure runs, then two
  seconds pass, until the context is done, either because the closure cancelled it
  after a successful query or because its deadline has passed. \<open>ServerVersion i\<close> is
  how long the query number \<open>i\<close> takes and what it returns. When the deadline falls
  into a query or into the two seconds after it, the wait ends at the deadline, or at the
  end of the query if that is later. The result says whether a query succeeded, and
  gives the time at which the wait ends and the effects.
\<close>

function apiPoll ::
  "(nat \<Rightarrow> nat \<times> (error + string)) \<Rightarrow> nat \<Rightarrow> nat \<Rightarrow> nat \<Rightarrow> pollState
     \<Rightarrow> bool \<times> nat \<times> effect list" where
  "apiPoll ServerVersion deadline now i st =
     (if deadline \<le> now then (False, now, [])
      else
        (case ServerVersion i of
           (took, Inr version) \<Rightarrow> (True, now + took, [Infof (''API '' @ version @ '' up'')])
         | (took, Inl err) \<Rightarrow>
             (let (st', l) = queryFailed err st in
              if deadline \<le> now + took + 2 then (False, max deadline (now + took), l)
              else
                (let (up, t, l') = apiPoll ServerVersion deadline (now + took + 2) (Suc i) st'
                 in (up, t, l @ l')))))"
  by pat_completeness auto
termination
  by (relation "measure (\<lambda>(ServerVersion, deadline, now, i, st). deadline - now)") auto

subsection \<open>Waiting for the bootstrap-complete event\<close>

text \<open>
  \<open>watch.Event\<close>: its type is a string, its object any API object. Of the objects only
  \<open>*corev1.Event\<close> is looked into, for its name and message.
\<close>

definition watch_Added :: string where
  "watch_Added = ''ADDED''"

definition watch_Modified :: string where
  "watch_Modified = ''MODIFIED''"

definition watch_Deleted :: string where
  "watch_Deleted = ''DELETED''"

definition watch_Error :: string where
  "watch_Error = ''ERROR''"

record corev1_Event =
  Event_Name :: string
  Event_Message :: string

datatype runtime_Object = CoreEvent corev1_Event | OtherObject string

record watch_Event =
  Event_Type :: string
  Event_Object :: runtime_Object

text \<open>The condition passed to \<open>Until\<close>: \<open>(done, err)\<close> and what it logs.\<close>

definition bootstrapComplete :: "watch_Event \<Rightarrow> (bool \<times> error option) \<times> effect list" where
  "bootstrapComplete watchEvent =
     (case Event_Object watchEvent of
        OtherObject other \<Rightarrow> ((False, None), [])
      | CoreEvent event \<Rightarrow>
          (if Event_Type watchEvent = watch_Error then
             ((False, None), [Debugf (''error '' @ Event_Name event @ '': '' @ Event_Message event)])
           else if Event_Type watchEvent \<noteq> watch_Added then ((False, None), [])
           else ((Event_Name event = ''bootstrap-complete'', None),
                 [Debugf (''added '' @ Event_Name event @ '': '' @ Event_Message event)])))"

text \<open>
  The function passed to \<open>Until\<close> that opens the watch. \<open>Watch rv now\<close> is how long the
  call of \<open>events.Watch\<close> made at time \<open>now\<close> with resource version \<open>rv\<close> takes and
  what it returns. After a failed call the context is looked at: when it is done the
  call's error is returned, otherwise a warning is logged and the loop sleeps two
  seconds. The result is the watcher or the error, the time and the effects.
\<close>

function openWatch ::
  "(string \<Rightarrow> nat \<Rightarrow> nat \<times> (error + 'w)) \<Rightarrow> nat \<Rightarrow> string \<Rightarrow> nat
     \<Rightarrow> (error + 'w) \<times> nat \<times> effect list" where
  "openWatch Watch deadline sinceResourceVersion now =
     (case Watch sinceResourceVersion now of
        (took, Inr watcher) \<Rightarrow> (Inr watcher, now + took, [])
      | (took, Inl err) \<Rightarrow>
          (if deadline \<le> now + took then (Inl err, now + took, [])
           else
             (let (r, t, l) = openWatch Watch deadline sinceResourceVersion (now + took + 2)
              in (r, t, Warningf (''Failed to connect events watcher: '' @ Error err)
                        # Sleep 2 # l))))"
  by pat_completeness auto
termination
  by (relation "measure (\<lambda>(Watch, deadline, rv, now). deadline - now)") auto

subsection \<open>destroyBootstrap\<close>

text \<open>
  The cluster as \<open>destroyBootstrap\<close> sees it: the results of building the client
  configuration and the client, the version queries, the watch calls, and the result of
  \<open>destroybootstrap.Destroy\<close>.
\<close>

record 'w cluster =
  BuildConfigFromFlags :: "error option"
  NewForConfig :: "error option"
  ServerVersion :: "nat \<Rightarrow> nat \<times> (error + string)"
  Watch :: "string \<Rightarrow> nat \<Rightarrow> nat \<times> (error + 'w)"
  Destroy :: "error option"

definition apiTimeout :: nat where
  "apiTimeout = 30 * 60"

definition eventTimeout :: nat where
  "eventTimeout = 30 * 60"

text \<open>
  \<open>destroyBootstrap\<close>, started at time \<open>now\<close>. \<open>Until\<close> is defined in another file of
  the package; here it is a parameter, given the deadline of the context it is called
  with, the time of the call, the initial resource version, the opener and the
  condition, and returning its error, the time at which it returns and its effects.
\<close>

definition destroyBootstrap ::
  "(nat \<Rightarrow> nat \<Rightarrow> string \<Rightarrow> (string \<Rightarrow> nat \<Rightarrow> (error + 'w) \<times> nat \<times> effect list)
      \<Rightarrow> (watch_Event \<Rightarrow> (bool \<times> error option) \<times> effect list)
      \<Rightarrow> error option \<times> nat \<times> effect list)
   \<Rightarrow> error option \<Rightarrow> 'w cluster \<Rightarrow> nat \<Rightarrow> error option \<times> nat \<times> effect list" where
  "destroyBootstrap Until setupFileHook cl now =
     (case setupFileHook of
        Some err \<Rightarrow> (Some (Wrap err ''failed to setup logging hook''), now, [])
      | None \<Rightarrow>
     (case BuildConfigFromFlags cl of
        Some err \<Rightarrow> (Some (Wrap err ''loading kubeconfig''), now, [])
      | None \<Rightarrow>
     (case NewForConfig cl of
        Some err \<Rightarrow> (Some (Wrap err ''creating a Kubernetes client''), now, [])
      | None \<Rightarrow>
     (let (up, t1, l1) = apiPoll (ServerVersion cl) (now + apiTimeout) now 0 initialPollState;
          eventDeadline = t1 + eventTimeout;
          (err, t2, l2) = Until eventDeadline t1 [] (openWatch (Watch cl) eventDeadline)
                            bootstrapComplete;
          l = [Infof ''Waiting 30m0s for the Kubernetes API...''] @ l1
              @ [Infof ''Waiting 30m0s for the bootstrap-complete event...''] @ l2
      in case err of
           Some e \<Rightarrow> (Some (Wrap e ''waiting for bootstrap-complete''), t2, l)
         | None \<Rightarrow> (Destroy cl, t2, l @ [Infof ''Destroying the bootstrap resources...''])))))"

section \<open>Reading the description of the rate-limited log\<close>

text \<open>
  The history of a poll is the list of the signatures of the failed queries so far, each
  with whether that failure was logged. From it alone: the signature of the failure
  logged last, if any failure has been logged, and the number of failures since then
  (since the start, if none has) that went unlogged.
\<close>

definition lastLogged :: "(string \<times> bool) list \<Rightarrow> string option" where
  "lastLogged h = (case filter snd (rev h) of [] \<Rightarrow> None | (sg, b) # rest \<Rightarrow> Some sg)"

definition unloggedSince :: "(string \<times> bool) list \<Rightarrow> nat" where
  "unloggedSince h = length (takeWhile (\<lambda>(sg, b). \<not> b) (rev h))"

definition history :: "error list \<Rightarrow> effect list list \<Rightarrow> (string \<times> bool) list" where
  "history errs logs = zip (map errorSuffix errs) (map (\<lambda>l. l \<noteq> []) logs)"

text \<open>
  The rule as the description words it: a failure is logged when its signature differs
  from the one logged last, which every signature does while nothing has been logged
  (the first occurrence), or when it is the 15th failure since the last log.
\<close>

definition loggedAsDescribed :: "(string \<times> bool) list \<Rightarrow> string \<Rightarrow> bool" where
  "loggedAsDescribed h sg =
     ((case lastLogged h of None \<Rightarrow> True | Some prev \<Rightarrow> sg \<noteq> prev)
      \<or> unloggedSince h + 1 = 15)"

text \<open>
  The errors of the failed queries that a wait for the API makes, in order: the walk of
  \<open>apiPoll\<close> with everything but the errors left out.
\<close>

function failedQueries ::
  "(nat \<Rightarrow> nat \<times> (error + string)) \<Rightarrow> nat \<Rightarrow> nat \<Rightarrow> nat \<Rightarrow> error list" where
  "failedQueries query deadline now i =
     (if deadline \<le> now then []
      else
        (case query i of
           (took, Inr version) \<Rightarrow> []
         | (took, Inl err) \<Rightarrow>
             (if deadline \<le> now + took + 2 then [err]
              else err # failedQueries query deadline (now + took + 2) (Suc i))))"
  by pat_completeness auto
termination
  by (relation "measure (\<lambda>(query, deadline, now, i). deadline - now)") auto

section \<open>Reading the description of Load\<close>

text \<open>
  The two situations that the description of \<open>Load\<close> distinguishes, read off the fetcher
  and the parser: the file is absent (the fetch error satisfies \<open>os.IsNotExist\<close>), or
  prior state exists but is malformed (the fetch fails for another reason, or the bytes
  fail to parse).
\<close>

definition absent :: "(string \<Rightarrow> error + asset_File) \<Rightarrow> bool" where
  "absent FetchByName =
     (case FetchByName installConfigFilename of Inl e \<Rightarrow> IsNotExist e | Inr f \<Rightarrow> False)"

definition malformed ::
  "(string \<Rightarrow> error + asset_File) \<Rightarrow> (string \<Rightarrow> error + 'c) \<Rightarrow> bool" where
  "malformed FetchByName Unmarshal =
     (case FetchByName installConfigFilename of
        Inl e \<Rightarrow> \<not> IsNotExist e
      | Inr f \<Rightarrow> (case Unmarshal (Data f) of Inl e \<Rightarrow> True | Inr c \<Rightarrow> False))"

section \<open>Concrete inputs\<close>

text \<open>Concrete inputs on which the theorems below are exercised.\<close>

definition examplePlatform :: "(string, string, string) Platform" where
  "examplePlatform = \<lparr> AWS = None, OpenStack = None, Libvirt = Some ''qemu'' \<rparr>"

definition noPlatform :: "(string, string, string) Platform" where
  "noPlatform = \<lparr> AWS = None, OpenStack = None, Libvirt = None \<rparr>"

definition exampleParents ::
  "(string, string, string) Platform \<Rightarrow> (string, string, string) Parents" where
  "exampleParents pf =
     \<lparr> clusterID = ''id-1'', emailAddress = ''a@b.c'', password = ''pw'', sshPublicKey = ''key'',
       baseDomain = ''example.com'', clusterName = ''test'', pullSecret = ''{}'',
       platform = pf \<rparr>"

definition emptyAsset :: "(string, string, string) InstallConfig" where
  "emptyAsset = \<lparr> Config = None, File = None \<rparr>"

definition okMarshal :: "(string, string, string) types_InstallConfig \<Rightarrow> error + string" where
  "okMarshal c = Inr (''name: '' @ ObjectMeta_Name c)"

definition okUnmarshal :: "string \<Rightarrow> error + (string, string, string) types_InstallConfig" where
  "okUnmarshal d =
     (if d = [] then Inl (ErrorString ''yaml: empty document'')
      else Inr (initialConfig (exampleParents examplePlatform)))"

definition absentFetcher :: "string \<Rightarrow> error + asset_File" where
  "absentFetcher n = Inl (PathError ''open'' n ErrNotExist)"

definition deniedFetcher :: "string \<Rightarrow> error + asset_File" where
  "deniedFetcher n = Inl (PathError ''open'' n (ErrorString ''permission denied''))"

definition diskFetcher :: "string \<Rightarrow> string \<Rightarrow> error + asset_File" where
  "diskFetcher d n = Inr \<lparr> Filename = n, Data = d \<rparr>"

definition eofError :: error where
  "eofError = ErrorString ''Get https://api.test:6443/version: EOF''"

definition refusedError :: error where
  "refusedError = ErrorString ''dial tcp 10.0.0.1:6443: connect: connection refused''"

definition exampleErrors :: "error list" where
  "exampleErrors = replicate 16 eofError @ [refusedError, refusedError]"

text \<open>
  A store that records the calls made on it; the asset \<open>bad\<close> fails to be fetched, with
  the exit error of a command, and fails to be written.
\<close>

definition recordingOps :: "(string list, string) assetOps" where
  "recordingOps =
     \<lparr> NewStore = Inr [],
       Fetch = (\<lambda>a s. (if a = ''bad'' then Some (ExitError ''exit status 1'' [CHR ''b'', CHR ''o'', CHR ''o'', CHR ''m'', CHR 0x0A])
                         else None, s @ [''fetch '' @ a])),
       PersistToFile = (\<lambda>a s. (if a = ''bad'' then Some (ErrorString ''disk full'') else None,
                                 s @ [''persist '' @ a])),
       asset_Name = (\<lambda>a. a) \<rparr>"

text \<open>
  A cluster whose API never answers and whose watch never connects, and an \<open>Until\<close>
  that returns at once without error.
\<close>

definition downCluster :: "unit cluster" where
  "downCluster =
     \<lparr> BuildConfigFromFlags = None,
       NewForConfig = None,
       ServerVersion = (\<lambda>i. (0, Inl eofError)),
       Watch = (\<lambda>rv t. (0, Inl refusedError)),
       Destroy = None \<rparr>"

definition immediateUntil ::
  "nat \<Rightarrow> nat \<Rightarrow> string \<Rightarrow> (string \<Rightarrow> nat \<Rightarrow> (error + unit) \<times> nat \<times> effect list)
     \<Rightarrow> (watch_Event \<Rightarrow> (bool \<times> error option) \<times> effect list)
     \<Rightarrow> error option \<times> nat \<times> effect list" where
  "immediateUntil deadline t rv opener cond = (None, t, [])"

definition statusErrorEvent :: watch_Event where
  "statusErrorEvent = \<lparr> Event_Type = watch_Error, Event_Object = OtherObject ''Status'' \<rparr>"

definition coreErrorEvent :: watch_Event where
  "coreErrorEvent =
     \<lparr> Event_Type = watch_Error,
       Event_Object = CoreEvent \<lparr> Event_Name = ''e1'', Event_Message = ''gone'' \<rparr> \<rparr>"

definition completeEvent :: watch_Event where
  "completeEvent =
     \<lparr> Event_Type = watch_Added,
       Event_Object = CoreEvent \<lparr> Event_Name = ''bootstrap-complete'',
                                  Event_Message = ''cluster bootstrapping has completed'' \<rparr> \<rparr>"

text \<open>
  A cluster whose API answers the third query, one whose queries each fail after 1000
  seconds, and an \<open>Until\<close> that gives up at its deadline.
\<close>

definition upCluster :: "unit cluster" where
  "upCluster =
     \<lparr> BuildConfigFromFlags = None,
       NewForConfig = None,
       ServerVersion = (\<lambda>i. if i < 2 then (1, Inl eofError) else (1, Inr ''v1.11.0'')),
       Watch = (\<lambda>rv t. (0, Inr ())),
       Destroy = None \<rparr>"

definition slowCluster :: "unit cluster" where
  "slowCluster =
     \<lparr> BuildConfigFromFlags = None,
       NewForConfig = None,
       ServerVersion = (\<lambda>i. (1000, Inl eofError)),
       Watch = (\<lambda>rv t. (0, Inl refusedError)),
       Destroy = None \<rparr>"

definition expiringUntil ::
  "nat \<Rightarrow> nat \<Rightarrow> string \<Rightarrow> (string \<Rightarrow> nat \<Rightarrow> (error + unit) \<times> nat \<times> effect list)
     \<Rightarrow> (watch_Event \<Rightarrow> (bool \<times> error option) \<times> effect list)
     \<Rightarrow> error option \<times> nat \<times> effect list" where
  "expiringUntil deadline t rv opener cond = (Some DeadlineExceeded, max deadline t, [])"

text \<open>An error whose text ends in a colon, and a poll whose only query fails with it.\<close>

definition colonError :: error where
  "colonError = ErrorString ''boom:''"

definition colonQuery :: "nat \<Rightarrow> nat \<times> (error + string)" where
  "colonQuery i = (2000, Inl colonError)"

text \<open>
  The equations of the three loops are unfolded by hand, one step at a time.
\<close>

declare apiPoll.simps [simp del] failedQueries.simps [simp del] openWatch.simps [simp del]

section \<open>Properties of the install-config asset\<close>

lemma selectPlatform_known:
  "AWS pf \<noteq> None \<or> OpenStack pf \<noteq> None \<or> Libvirt pf \<noteq> None \<Longrightarrow>
   \<exists>c'. selectPlatform pf c =
     Returned (c', if AWS pf \<noteq> None \<or> OpenStack pf \<noteq> None then 3 else 1,
                   if AWS pf \<noteq> None \<or> OpenStack pf \<noteq> None then 3 else 1)"
  by (auto simp: selectPlatform_def)

text \<open>
  C3, as the code has it: when none of the three platform variants is set,
  \<open>Generate\<close> does not return an error; it panics with the message
  "unknown platform type".
\<close>

theorem Generate_unknown_platform_panics:
  "AWS (platform p) = None \<Longrightarrow> OpenStack (platform p) = None \<Longrightarrow> Libvirt (platform p) = None
   \<Longrightarrow> Generate Marshal p a = Panic ''unknown platform type''"
  by (simp add: Generate_def selectPlatform_def)

theorem Generate_unknown_platform_panics_witness:
  "AWS (platform (exampleParents noPlatform)) = None
   \<and> OpenStack (platform (exampleParents noPlatform)) = None
   \<and> Libvirt (platform (exampleParents noPlatform)) = None
   \<and> Generate okMarshal (exampleParents noPlatform) emptyAsset = Panic ''unknown platform type''"
  using Generate_unknown_platform_panics [of "exampleParents noPlatform" okMarshal emptyAsset]
  by (simp add: exampleParents_def noPlatform_def)

text \<open>
  C3, as the claim states it, fails: for a dependency table with no platform variant the
  call is a panic, not a returned error.
\<close>

theorem Generate_unknown_platform_counterexample:
  "Generate okMarshal (exampleParents noPlatform) emptyAsset = Panic ''unknown platform type''"
  by (simp add: Generate_def selectPlatform_def exampleParents_def noPlatform_def)

text \<open>
  C4: for every file fetcher (and parser), \<open>Load\<close> returns \<open>found = false\<close> with a nil
  error when the file is absent; it returns a non-nil error exactly when prior state is
  malformed; and in that case \<open>found\<close> is false and the error returned is the fetch error
  itself, or the parse error wrapped, so the cause is never lost.
\<close>

theorem Load_absent_and_malformed:
  "(absent F \<longrightarrow> fst (Load F U a) = (False, None))
   \<and> ((snd (fst (Load F U a)) \<noteq> None) = malformed F U)
   \<and> (malformed F U \<longrightarrow> \<not> fst (fst (Load F U a)))
   \<and> (\<forall>e. F installConfigFilename = Inl e \<and> \<not> IsNotExist e
          \<longrightarrow> snd (fst (Load F U a)) = Some e)
   \<and> (\<forall>f e. F installConfigFilename = Inr f \<and> U (Data f) = Inl e
          \<longrightarrow> snd (fst (Load F U a)) = Some (Wrap e ''failed to unmarshal'')
              \<and> Cause (the (snd (fst (Load F U a)))) = Cause e)"
  by (auto simp: Load_def absent_def malformed_def Wrap_def split: sum.splits)

theorem Load_absent_and_malformed_witness:
  "absent absentFetcher
   \<and> fst (Load absentFetcher okUnmarshal emptyAsset) = (False, None)
   \<and> malformed deniedFetcher okUnmarshal
   \<and> fst (Load deniedFetcher okUnmarshal emptyAsset)
       = (False, Some (PathError ''open'' ''install-config.yml'' (ErrorString ''permission denied'')))
   \<and> malformed (diskFetcher []) okUnmarshal
   \<and> fst (Load (diskFetcher []) okUnmarshal emptyAsset)
       = (False, Some (Wrap (ErrorString ''yaml: empty document'') ''failed to unmarshal''))"
  using Load_absent_and_malformed [of absentFetcher okUnmarshal emptyAsset]
        Load_absent_and_malformed [of deniedFetcher okUnmarshal emptyAsset]
        Load_absent_and_malformed [of "diskFetcher []" okUnmarshal emptyAsset]
  by (simp add: absent_def malformed_def absentFetcher_def deniedFetcher_def diskFetcher_def
      okUnmarshal_def IsNotExist_def installConfigFilename_def prod_eq_iff)

text \<open>
  C8: \<open>Files\<close> is empty as long as the asset's file pointer is nil, which is the case in
  a fresh asset and stays so through a failed \<open>Generate\<close> or a \<open>Load\<close> that did not
  find the file; after a \<open>Generate\<close> that returned no error or a \<open>Load\<close> that found
  the file it is exactly one file: the marshalled config under the name
  \<open>install-config.yml\<close>, respectively the file fetched.
\<close>

theorem Files_empty_then_one:
  "(File a = None \<longrightarrow> Files a = [])
   \<and> (\<forall>e a'. File a = None \<and> Generate M p a = Returned (Some e, a') \<longrightarrow> Files a' = [])
   \<and> (\<forall>e a'. File a = None \<and> Load F U a = ((False, e), a') \<longrightarrow> Files a' = [])
   \<and> (\<forall>a'. Generate M p a = Returned (None, a') \<longrightarrow>
         (\<exists>c d. Config a' = Some c \<and> M c = Inr d
                \<and> Files a' = [\<lparr> Filename = installConfigFilename, Data = d \<rparr>]))
   \<and> (\<forall>e a'. Load F U a = ((True, e), a') \<longrightarrow>
         (\<exists>f. F installConfigFilename = Inr f \<and> Files a' = [f]))"
  by (auto simp: Files_def Generate_def Load_def Let_def
      split: sum.splits outcome.splits prod.splits if_splits)

theorem Files_empty_then_one_witness:
  "Files emptyAsset = []
   \<and> (\<exists>a'. Generate okMarshal (exampleParents examplePlatform) emptyAsset = Returned (None, a')
          \<and> Files a' = [\<lparr> Filename = ''install-config.yml'', Data = ''name: test'' \<rparr>])
   \<and> (\<exists>a'. Load (diskFetcher ''x'') okUnmarshal emptyAsset = ((True, None), a')
          \<and> Files a' = [\<lparr> Filename = ''install-config.yml'', Data = ''x'' \<rparr>])
   \<and> (\<exists>a'. Load absentFetcher okUnmarshal emptyAsset = ((False, None), a') \<and> Files a' = [])"
  using Files_empty_then_one [of emptyAsset okMarshal "exampleParents examplePlatform"
          "diskFetcher ''x''" okUnmarshal]
        Files_empty_then_one [of emptyAsset okMarshal "exampleParents examplePlatform"
          absentFetcher okUnmarshal]
  by (simp add: Files_def Generate_def Load_def Let_def emptyAsset_def okMarshal_def
      exampleParents_def examplePlatform_def selectPlatform_def initialConfig_def
      diskFetcher_def absentFetcher_def okUnmarshal_def IsNotExist_def installConfigFilename_def)

text \<open>
  C9: whenever \<open>Load\<close> returns \<open>found = false\<close>, with or without an error, the asset is
  left exactly as it was, so its \<open>Config\<close> and \<open>File\<close> fields are unchanged; a call
  that changes the asset is one that returned \<open>found = true\<close> with a nil error.
\<close>

theorem Load_not_found_unchanged:
  "(\<not> fst (fst (Load F U a)) \<longrightarrow>
      snd (Load F U a) = a
      \<and> Config (snd (Load F U a)) = Config a \<and> File (snd (Load F U a)) = File a)
   \<and> (snd (Load F U a) \<noteq> a \<longrightarrow> fst (Load F U a) = (True, None))"
  by (auto simp: Load_def split: sum.splits)

theorem Load_not_found_unchanged_witness:
  "\<not> fst (fst (Load absentFetcher okUnmarshal emptyAsset))
   \<and> snd (Load absentFetcher okUnmarshal emptyAsset) = emptyAsset
   \<and> \<not> fst (fst (Load (diskFetcher []) okUnmarshal emptyAsset))
   \<and> snd (fst (Load (diskFetcher []) okUnmarshal emptyAsset)) \<noteq> None
   \<and> snd (Load (diskFetcher []) okUnmarshal emptyAsset) = emptyAsset
   \<and> snd (Load (diskFetcher ''x'') okUnmarshal emptyAsset) \<noteq> emptyAsset
   \<and> fst (Load (diskFetcher ''x'') okUnmarshal emptyAsset) = (True, None)"
  using Load_not_found_unchanged [of absentFetcher okUnmarshal emptyAsset]
        Load_not_found_unchanged [of "diskFetcher []" okUnmarshal emptyAsset]
        Load_not_found_unchanged [of "diskFetcher ''x''" okUnmarshal emptyAsset]
  by (simp add: Load_def emptyAsset_def diskFetcher_def absentFetcher_def okUnmarshal_def
      IsNotExist_def installConfigFilename_def)

text \<open>
  C10: for every dependency table in which a platform variant is set, \<open>Generate\<close>
  returns (it does not panic) and leaves a config whose \<open>Machines\<close> list is the pool
  "master" followed by the pool "worker", both with 3 replicas when the platform is AWS
  or OpenStack and both with 1 replica when it is Libvirt.
\<close>

theorem Generate_machine_pools:
  "AWS (platform p) \<noteq> None \<or> OpenStack (platform p) \<noteq> None \<or> Libvirt (platform p) \<noteq> None \<Longrightarrow>
   \<exists>err a' c. Generate M p a = Returned (err, a') \<and> Config a' = Some c
     \<and> Machines c =
         [\<lparr> Name = ''master'',
            Replicas = Some (if AWS (platform p) \<noteq> None \<or> OpenStack (platform p) \<noteq> None
                             then 3 else 1) \<rparr>,
          \<lparr> Name = ''worker'',
            Replicas = Some (if AWS (platform p) \<noteq> None \<or> OpenStack (platform p) \<noteq> None
                             then 3 else 1) \<rparr>]"
proof -
  assume known: "AWS (platform p) \<noteq> None \<or> OpenStack (platform p) \<noteq> None
                 \<or> Libvirt (platform p) \<noteq> None"
  from selectPlatform_known [OF known, of "initialConfig p"]
  obtain c' where sel: "selectPlatform (platform p) (initialConfig p) =
      Returned (c', if AWS (platform p) \<noteq> None \<or> OpenStack (platform p) \<noteq> None then 3 else 1,
                    if AWS (platform p) \<noteq> None \<or> OpenStack (platform p) \<noteq> None then 3 else 1)"
    by blast
  show ?thesis
    by (cases "M (c'\<lparr>Machines :=
          [\<lparr> Name = ''master'',
             Replicas = Some (if AWS (platform p) \<noteq> None \<or> OpenStack (platform p) \<noteq> None
                              then 3 else 1) \<rparr>,
           \<lparr> Name = ''worker'',
             Replicas = Some (if AWS (platform p) \<noteq> None \<or> OpenStack (platform p) \<noteq> None
                              then 3 else 1) \<rparr>]\<rparr>)")
       (simp_all add: Generate_def sel Let_def)
qed

theorem Generate_machine_pools_witness:
  "Libvirt (platform (exampleParents examplePlatform)) \<noteq> None
   \<and> (\<exists>err a' c. Generate okMarshal (exampleParents examplePlatform) emptyAsset = Returned (err, a')
        \<and> Config a' = Some c
        \<and> Machines c = [\<lparr> Name = ''master'', Replicas = Some 1 \<rparr>,
                        \<lparr> Name = ''worker'', Replicas = Some 1 \<rparr>])"
  using Generate_machine_pools [of "exampleParents examplePlatform" okMarshal emptyAsset]
  by (simp add: exampleParents_def examplePlatform_def)

section \<open>The rate-limited log of the wait for the API\<close>

lemma length_queriesFailed: "length (queriesFailed st errs) = length errs"
  by (induction errs arbitrary: st) (auto split: prod.splits)

lemma queriesFailed_snoc:
  "queriesFailed st (errs @ [e]) =
     queriesFailed st errs @ [snd (queryFailed e (pollStateAfter st errs))]"
  by (induction errs arbitrary: st) (auto split: prod.splits)

lemma pollStateAfter_snoc:
  "pollStateAfter st (errs @ [e]) = fst (queryFailed e (pollStateAfter st errs))"
  by (induction errs arbitrary: st) auto

lemma queriesFailed_take:
  "take k (queriesFailed st errs) = queriesFailed st (take k errs)"
  by (induction errs arbitrary: st k) (auto simp: take_Cons' split: prod.splits)

lemma queriesFailed_nth:
  "k < length errs \<Longrightarrow>
   queriesFailed st errs ! k = snd (queryFailed (errs ! k) (pollStateAfter st (take k errs)))"
proof (induction errs arbitrary: st k)
  case Nil then show ?case by simp
next
  case (Cons e errs)
  show ?case
  proof (cases k)
    case 0 then show ?thesis by (simp split: prod.splits)
  next
    case (Suc j)
    with Cons show ?thesis by (simp split: prod.splits)
  qed
qed

lemma history_snoc:
  "length errs = length logs \<Longrightarrow>
   history (errs @ [e]) (logs @ [l]) = history errs logs @ [(errorSuffix e, l \<noteq> [])]"
  by (simp add: history_def)

lemma poll_invariant:
  "previousErrorSuffix (pollStateAfter initialPollState errs)
     = (case lastLogged (history errs (queriesFailed initialPollState errs)) of
          None \<Rightarrow> [] | Some prev \<Rightarrow> prev)
   \<and> silenceRemaining (pollStateAfter initialPollState errs)
     = logDownsample - int (unloggedSince (history errs (queriesFailed initialPollState errs)))
   \<and> unloggedSince (history errs (queriesFailed initialPollState errs)) < 15"
proof (induction errs rule: rev_induct)
  case Nil
  show ?case
    by (simp add: initialPollState_def history_def lastLogged_def unloggedSince_def)
next
  case (snoc e errs)
  let ?st = "pollStateAfter initialPollState errs"
  let ?h = "history errs (queriesFailed initialPollState errs)"
  have h: "history (errs @ [e]) (queriesFailed initialPollState (errs @ [e]))
            = ?h @ [(errorSuffix e, snd (queryFailed e ?st) \<noteq> [])]"
    by (simp add: queriesFailed_snoc history_snoc length_queriesFailed)
  from snoc show ?case
    unfolding h pollStateAfter_snoc
    by (auto simp: queryFailed_def Let_def lastLogged_def unloggedSince_def
        logDownsample_def)
qed

lemma history_take:
  "take k (history errs logs) = history (take k errs) (take k logs)"
  by (simp add: history_def take_zip take_map)

lemma Split_ne: "Split s c \<noteq> []"
  by (induction s) (auto split: list.splits)

lemma Split_no_sep: "c \<notin> set s \<Longrightarrow> Split s c = [s]"
  by (induction s) auto

lemma Split_at_last_sep:
  "c \<notin> set b \<Longrightarrow> \<exists>ys. Split (a @ c # b) c = ys @ [b] \<and> ys \<noteq> []"
proof (induction a)
  case Nil
  then show ?case by (simp add: Split_no_sep)
next
  case (Cons x a)
  then obtain ys where ys: "Split (a @ c # b) c = ys @ [b]" "ys \<noteq> []" by blast
  then obtain y ys' where yy: "ys = y # ys'" by (cases ys) auto
  show ?case
  proof (cases "x = c")
    case True
    then have "Split ((x # a) @ c # b) c = ([] # ys) @ [b]" using ys by simp
    then show ?thesis by blast
  next
    case False
    then have "Split ((x # a) @ c # b) c = ((x # y) # ys') @ [b]" using ys yy by simp
    then show ?thesis by blast
  qed
qed

lemma Split_last:
  "\<exists>pre. s = pre @ last (Split s c) \<and> c \<notin> set (last (Split s c))
         \<and> (pre = [] \<or> last pre = c)"
proof (cases "c \<in> set s")
  case False
  then show ?thesis by (simp add: Split_no_sep)
next
  case True
  then obtain a b where ab: "s = a @ c # b" "c \<notin> set b" by (meson split_list_last)
  from Split_at_last_sep [OF ab(2), of a] obtain ys where "Split s c = ys @ [b]"
    using ab(1) by blast
  then have "last (Split s c) = b" by simp
  moreover have "s = (a @ [c]) @ b" using ab by simp
  moreover have "last (a @ [c]) = c" by simp
  ultimately show ?thesis using ab(2) by blast
qed


lemma apiPoll_effects:
  "\<exists>fin. snd (snd (apiPoll q d now i st))
            = concat (queriesFailed st (failedQueries q d now i)) @ fin
         \<and> (fin = [] \<or> (\<exists>v. fin = [Infof (''API '' @ v @ '' up'')]))"
proof (induction q d now i st rule: apiPoll.induct)
  case (1 q d now i st)
  note unfold = apiPoll.simps [of q d now i st] failedQueries.simps [of q d now i]
  show ?case
  proof (cases "d \<le> now")
    case True
    then show ?thesis by (simp add: unfold)
  next
    case late: False
    obtain took r where q: "q i = (took, r)" by (cases "q i")
    show ?thesis
    proof (cases r)
      case (Inr v)
      with late q show ?thesis by (simp add: unfold)
    next
      case (Inl err)
      obtain st' l where qf: "queryFailed err st = (st', l)" by (cases "queryFailed err st")
      show ?thesis
      proof (cases "d \<le> now + took + 2")
        case True
        with late q Inl qf show ?thesis by (simp add: unfold)
      next
        case False
        from "1.IH" [OF late q [symmetric] Inl refl qf [symmetric] False]
        obtain fin where
          "snd (snd (apiPoll q d (now + took + 2) (Suc i) st'))
             = concat (queriesFailed st' (failedQueries q d (now + took + 2) (Suc i))) @ fin"
          "fin = [] \<or> (\<exists>v. fin = [Infof (''API '' @ v @ '' up'')])"
          by blast
        with late q Inl qf False show ?thesis
          by (auto simp add: unfold split: prod.splits)
      qed
    qed
  qed
qed

text \<open>
  C7, as the code has it: for every sequence of failed version queries, the failure
  number \<open>k\<close> logs the "still waiting" line exactly when its signature differs from the
  signature of the failure logged last, or when it is the 15th failure since the last
  logged one (since the start, while nothing has been logged); otherwise it logs
  nothing. While nothing has been logged the signature is compared with the empty
  text, so a failure with the empty signature is then no change. Whenever a failure
  has been logged before, or the signature is not empty, this is the rule as the
  description words it. The signature is the text of the error after its last colon,
  the whole text when it has none. The lines a wait for the API logs are those of the
  failed queries it makes, followed at most by the line that reports the API up.
\<close>

theorem still_waiting_logged_rule:
  "logs = queriesFailed initialPollState errs \<Longrightarrow>
   (\<forall>k < length errs.
      logs ! k =
        (if (case lastLogged (take k (history errs logs)) of
               None \<Rightarrow> errorSuffix (errs ! k) \<noteq> []
             | Some prev \<Rightarrow> errorSuffix (errs ! k) \<noteq> prev)
            \<or> unloggedSince (take k (history errs logs)) + 1 = 15
         then [Debugf (''Still waiting for the Kubernetes API: '' @ Error (errs ! k))]
         else [])
      \<and> (lastLogged (take k (history errs logs)) \<noteq> None \<or> errorSuffix (errs ! k) \<noteq> []
           \<longrightarrow> (logs ! k \<noteq> [])
                 = loggedAsDescribed (take k (history errs logs)) (errorSuffix (errs ! k)))
      \<and> (\<exists>pre. Error (errs ! k) = pre @ errorSuffix (errs ! k)
               \<and> CHR '':'' \<notin> set (errorSuffix (errs ! k))
               \<and> (pre = [] \<or> last pre = CHR '':'')))
   \<and> (\<exists>fin. snd (snd (apiPoll q d now 0 initialPollState))
              = concat (queriesFailed initialPollState (failedQueries q d now 0)) @ fin
            \<and> (fin = [] \<or> (\<exists>v. fin = [Infof (''API '' @ v @ '' up'')])))"
proof (intro conjI allI impI)
  fix k assume k: "k < length errs" and logs: "logs = queriesFailed initialPollState errs"
  let ?st = "pollStateAfter initialPollState (take k errs)"
  have h: "take k (history errs logs)
             = history (take k errs) (queriesFailed initialPollState (take k errs))"
    by (simp add: history_take logs queriesFailed_take)
  have inv: "previousErrorSuffix ?st
               = (case lastLogged (take k (history errs logs)) of
                    None \<Rightarrow> [] | Some prev \<Rightarrow> prev)"
    "silenceRemaining ?st = logDownsample - int (unloggedSince (take k (history errs logs)))"
    "unloggedSince (take k (history errs logs)) < 15"
    using poll_invariant [of "take k errs"] by (simp_all add: h)
  have "logs ! k = snd (queryFailed (errs ! k) ?st)"
    using k by (simp add: logs queriesFailed_nth)
  then show rule: "logs ! k =
        (if (case lastLogged (take k (history errs logs)) of
               None \<Rightarrow> errorSuffix (errs ! k) \<noteq> []
             | Some prev \<Rightarrow> errorSuffix (errs ! k) \<noteq> prev)
            \<or> unloggedSince (take k (history errs logs)) + 1 = 15
         then [Debugf (''Still waiting for the Kubernetes API: '' @ Error (errs ! k))]
         else [])"
    using inv by (auto simp: queryFailed_def Let_def logDownsample_def split: option.splits)
  show "\<exists>pre. Error (errs ! k) = pre @ errorSuffix (errs ! k)
               \<and> CHR '':'' \<notin> set (errorSuffix (errs ! k))
               \<and> (pre = [] \<or> last pre = CHR '':'')"
    unfolding errorSuffix_def by (rule Split_last)
  assume "lastLogged (take k (history errs logs)) \<noteq> None \<or> errorSuffix (errs ! k) \<noteq> []"
  then show "(logs ! k \<noteq> [])
      = loggedAsDescribed (take k (history errs logs)) (errorSuffix (errs ! k))"
    unfolding rule by (auto simp: loggedAsDescribed_def split: option.splits)
next
  show "\<exists>fin. snd (snd (apiPoll q d now 0 initialPollState))
              = concat (queriesFailed initialPollState (failedQueries q d now 0)) @ fin
            \<and> (fin = [] \<or> (\<exists>v. fin = [Infof (''API '' @ v @ '' up'')]))"
    by (rule apiPoll_effects)
qed

lemma exampleErrors_logs:
  "length exampleErrors = 18"
  "queriesFailed initialPollState exampleErrors ! 0
     = [Debugf ''Still waiting for the Kubernetes API: Get https://api.test:6443/version: EOF'']"
  "queriesFailed initialPollState exampleErrors ! 14 = []"
  "queriesFailed initialPollState exampleErrors ! 15
     = [Debugf ''Still waiting for the Kubernetes API: Get https://api.test:6443/version: EOF'']"
  "queriesFailed initialPollState exampleErrors ! 16
     = [Debugf ''Still waiting for the Kubernetes API: dial tcp 10.0.0.1:6443: connect: connection refused'']"
  "queriesFailed initialPollState exampleErrors ! 17 = []"
  "errorSuffix (exampleErrors ! 15) = '' EOF''"
  "lastLogged (take 15 (history exampleErrors (queriesFailed initialPollState exampleErrors)))
     = Some '' EOF''"
  "unloggedSince (take 15 (history exampleErrors
                             (queriesFailed initialPollState exampleErrors))) + 1 = 15"
  "loggedAsDescribed (take 15 (history exampleErrors
                                 (queriesFailed initialPollState exampleErrors)))
     (errorSuffix (exampleErrors ! 15))"
  by code_simp+

theorem still_waiting_logged_rule_witness:
  "(15::nat) < length exampleErrors
   \<and> queriesFailed initialPollState exampleErrors ! 0
     = [Debugf ''Still waiting for the Kubernetes API: Get https://api.test:6443/version: EOF'']
   \<and> queriesFailed initialPollState exampleErrors ! 14 = []
   \<and> queriesFailed initialPollState exampleErrors ! 15
     = [Debugf ''Still waiting for the Kubernetes API: Get https://api.test:6443/version: EOF'']
   \<and> queriesFailed initialPollState exampleErrors ! 16
     = [Debugf ''Still waiting for the Kubernetes API: dial tcp 10.0.0.1:6443: connect: connection refused'']
   \<and> queriesFailed initialPollState exampleErrors ! 17 = []
   \<and> errorSuffix (exampleErrors ! 15) = '' EOF''
   \<and> lastLogged (take 15 (history exampleErrors
                              (queriesFailed initialPollState exampleErrors)))
       = Some '' EOF''
   \<and> unloggedSince (take 15 (history exampleErrors
                                 (queriesFailed initialPollState exampleErrors))) + 1 = 15
   \<and> loggedAsDescribed (take 15 (history exampleErrors
                                     (queriesFailed initialPollState exampleErrors)))
        (errorSuffix (exampleErrors ! 15))"
  using still_waiting_logged_rule
          [OF refl, of exampleErrors "\<lambda>i. (0, Inr ''v1'')" 0 0]
        exampleErrors_logs
  by (auto split: if_splits)

lemma colon_run:
  "errorSuffix colonError = []"
  "lastLogged (history [] []) = None"
  "loggedAsDescribed (history [] []) (errorSuffix colonError)"
  "queriesFailed initialPollState [colonError] = [[]]"
  "apiPoll colonQuery (0 + apiTimeout) 0 0 initialPollState = (False, 2000, [])"
  by code_simp+

text \<open>
  C7, as the claim states it, fails at a first failure whose text ends in a colon: its
  signature is empty, nothing has been logged before it, so by the rule as described
  it is logged; the closure logs nothing for it, and a wait whose only query fails so
  logs nothing at all.
\<close>

theorem first_failure_empty_signature_counterexample:
  "errorSuffix colonError = []
   \<and> lastLogged (history [] []) = None
   \<and> loggedAsDescribed (history [] []) (errorSuffix colonError)
   \<and> queriesFailed initialPollState [colonError] = [[]]
   \<and> apiPoll colonQuery (0 + apiTimeout) 0 0 initialPollState = (False, 2000, [])"
  using colon_run by simp

section \<open>Properties of runTargetCmd\<close>

lemma fetchAndPersist_append:
  "fetchAndPersist ops pre s = (None, s1, l1) \<Longrightarrow>
   fetchAndPersist ops (pre @ rest) s =
     (let (r, s2, l2) = fetchAndPersist ops rest s1 in (r, s2, l1 @ l2))"
proof (induction pre arbitrary: s l1)
  case Nil
  then show ?case by (simp split: prod.splits)
next
  case (Cons a pre)
  then show ?case
    by (auto simp: Let_def split: prod.splits option.splits)
qed

text \<open>
  C1: for every list of targets, when the loop reaches an asset (all assets before it
  were fetched and written without error) whose fetch fails and whose write then fails
  too, \<open>runTargetCmd\<close> returns the fetch error, wrapped as "failed to fetch" with the
  asset's name and with the cause of the fetch error as its cause, and the last thing
  it logs is the write error, wrapped as "failed to write asset"; the state it leaves
  is the one after the write was attempted.
\<close>

theorem fetch_and_persist_both_fail:
  "NewStore ops = Inr s \<Longrightarrow> fetchAndPersist ops pre s = (None, s1, l1) \<Longrightarrow>
   Fetch ops a s1 = (Some e, s2) \<Longrightarrow> PersistToFile ops a s2 = (Some e2, s3) \<Longrightarrow>
   runTargetCmd None ops (pre @ a # post) =
     (Some (Wrap e (''failed to fetch '' @ asset_Name ops a)), Some s3,
      l1 @ logStderr e
         @ [LogError (Error (Wrap e2 (''failed to write asset ('' @ asset_Name ops a
                                       @ '') to disk'')))])
   \<and> Cause (Wrap e (''failed to fetch '' @ asset_Name ops a)) = Cause e"
  by (simp add: runTargetCmd_def fetchAndPersist_append Wrap_def)

lemma recording_run:
  "fetchAndPersist recordingOps [''good''] [] = (None, [''fetch good'', ''persist good''], [])"
  "Fetch recordingOps ''bad'' [''fetch good'', ''persist good'']
     = (Some (ExitError ''exit status 1'' [CHR ''b'', CHR ''o'', CHR ''o'', CHR ''m'', CHR 0x0A]),
        [''fetch good'', ''persist good'', ''fetch bad''])"
  "PersistToFile recordingOps ''bad'' [''fetch good'', ''persist good'', ''fetch bad'']
     = (Some (ErrorString ''disk full''),
        [''fetch good'', ''persist good'', ''fetch bad'', ''persist bad''])"
  "NewStore recordingOps = Inr []"
  by (simp_all add: recordingOps_def)

theorem fetch_and_persist_both_fail_witness:
  "NewStore recordingOps = Inr []
   \<and> fetchAndPersist recordingOps [''good''] [] = (None, [''fetch good'', ''persist good''], [])
   \<and> Fetch recordingOps ''bad'' [''fetch good'', ''persist good'']
     = (Some (ExitError ''exit status 1'' [CHR ''b'', CHR ''o'', CHR ''o'', CHR ''m'', CHR 0x0A]),
        [''fetch good'', ''persist good'', ''fetch bad''])
   \<and> PersistToFile recordingOps ''bad'' [''fetch good'', ''persist good'', ''fetch bad'']
     = (Some (ErrorString ''disk full''),
        [''fetch good'', ''persist good'', ''fetch bad'', ''persist bad''])
   \<and> runTargetCmd None recordingOps ([''good''] @ ''bad'' # [''never''])
     = (Some (Wrap (ExitError ''exit status 1'' [CHR ''b'', CHR ''o'', CHR ''o'', CHR ''m'', CHR 0x0A])
                ''failed to fetch bad''),
        Some [''fetch good'', ''persist good'', ''fetch bad'', ''persist bad''],
        [LogError ''boom'', LogError ''failed to write asset (bad) to disk: disk full''])"
  using fetch_and_persist_both_fail [OF recording_run(4) recording_run(1) recording_run(2)
          recording_run(3), of "[''never'']"]
        recording_run
  by (simp add: logStderr_def Trim_def Wrap_def recordingOps_def)

section \<open>The bootstrap-complete condition\<close>

text \<open>
  C5, as the code has it: for every watch event the condition returns \<open>done = true\<close>
  exactly when the event is of type \<open>ADDED\<close> and its object is a core Event named
  exactly "bootstrap-complete", and it never returns an error; for every event of type
  \<open>ERROR\<close> it returns \<open>done = false\<close> with a nil error, so the event is skipped; and
  an \<open>ERROR\<close> event whose object is a core Event is logged with its name and message.
\<close>

theorem bootstrapComplete_done_iff:
  "(fst (fst (bootstrapComplete ev))
      = (Event_Type ev = watch_Added
         \<and> (\<exists>event. Event_Object ev = CoreEvent event
                      \<and> Event_Name event = ''bootstrap-complete'')))
   \<and> snd (fst (bootstrapComplete ev)) = None
   \<and> (Event_Type ev = watch_Error \<longrightarrow> fst (bootstrapComplete ev) = (False, None))
   \<and> (\<forall>event. Event_Type ev = watch_Error \<and> Event_Object ev = CoreEvent event \<longrightarrow>
         snd (bootstrapComplete ev)
           = [Debugf (''error '' @ Event_Name event @ '': '' @ Event_Message event)])"
  by (cases "Event_Object ev")
     (auto simp: bootstrapComplete_def watch_Error_def watch_Added_def)

theorem bootstrapComplete_done_iff_witness:
  "Event_Type coreErrorEvent = watch_Error
   \<and> bootstrapComplete coreErrorEvent = ((False, None), [Debugf ''error e1: gone''])
   \<and> Event_Type completeEvent = watch_Added
   \<and> fst (bootstrapComplete completeEvent) = (True, None)"
  using bootstrapComplete_done_iff [of coreErrorEvent]
        bootstrapComplete_done_iff [of completeEvent]
  by (simp add: coreErrorEvent_def completeEvent_def bootstrapComplete_def watch_Error_def
      watch_Added_def)

text \<open>
  C5, as the claim states it, fails in its "is logged": an \<open>ERROR\<close> event whose object
  is not a core Event (a Status, say) leaves the condition at the type assertion,
  before the line that logs, and nothing is logged for it.
\<close>

theorem bootstrapComplete_error_counterexample:
  "Event_Type statusErrorEvent = watch_Error
   \<and> bootstrapComplete statusErrorEvent = ((False, None), [])"
  by (simp add: statusErrorEvent_def bootstrapComplete_def)

section \<open>Opening the event watch\<close>

lemma openWatch_result:
  "openWatch W d rv now = (r, t, l) \<Longrightarrow>
   (case r of
      Inl e \<Rightarrow> d \<le> t \<and> (\<exists>t0 took. now \<le> t0 \<and> W rv t0 = (took, Inl e) \<and> t = t0 + took)
    | Inr w \<Rightarrow> (\<exists>t0 took. now \<le> t0 \<and> W rv t0 = (took, Inr w) \<and> t = t0 + took))
   \<and> now + 2 * count_list l (Sleep 2) \<le> t
   \<and> (\<forall>x \<in> set l. x = Sleep 2
                    \<or> (\<exists>e. x = Warningf (''Failed to connect events watcher: '' @ Error e)))"
proof (induction W d rv now arbitrary: r t l rule: openWatch.induct)
  case (1 W d rv now)
  note unfold = openWatch.simps [of W d rv now]
  obtain took res where w: "W rv now = (took, res)" by (cases "W rv now")
  show ?case
  proof (cases res)
    case (Inr watcher)
    with w "1.prems" have eqs: "r = Inr watcher" "t = now + took" "l = []"
      by (auto simp: unfold)
    have "now \<le> now \<and> W rv now = (took, Inr watcher) \<and> t = now + took"
      using w Inr eqs by simp
    then have "\<exists>t0 tk. now \<le> t0 \<and> W rv t0 = (tk, Inr watcher) \<and> t = t0 + tk" by blast
    then show ?thesis using eqs by simp
  next
    case (Inl err)
    show ?thesis
    proof (cases "d \<le> now + took")
      case True
      with w Inl "1.prems" have eqs: "r = Inl err" "t = now + took" "l = []"
        by (auto simp: unfold)
      have "now \<le> now \<and> W rv now = (took, Inl err) \<and> t = now + took"
        using w Inl eqs by simp
      then have "\<exists>t0 tk. now \<le> t0 \<and> W rv t0 = (tk, Inl err) \<and> t = t0 + tk" by blast
      then show ?thesis using eqs True by simp
    next
      case False
      obtain r' t' l' where rec: "openWatch W d rv (now + took + 2) = (r', t', l')"
        by (cases "openWatch W d rv (now + took + 2)")
      from "1.IH" [OF w [symmetric] Inl False rec]
      have ih: "(case r' of
          Inl e \<Rightarrow> d \<le> t' \<and> (\<exists>t0 tk. now + took + 2 \<le> t0 \<and> W rv t0 = (tk, Inl e) \<and> t' = t0 + tk)
        | Inr w \<Rightarrow> (\<exists>t0 tk. now + took + 2 \<le> t0 \<and> W rv t0 = (tk, Inr w) \<and> t' = t0 + tk))"
        "now + took + 2 + 2 * count_list l' (Sleep 2) \<le> t'"
        "\<forall>x \<in> set l'. x = Sleep 2
            \<or> (\<exists>e. x = Warningf (''Failed to connect events watcher: '' @ Error e))"
        by auto
      from w Inl False rec "1.prems"
      have eqs: "r = r'" "t = t'"
        "l = Warningf (''Failed to connect events watcher: '' @ Error err) # Sleep 2 # l'"
        by (auto simp: unfold)
      have a: "case r of
          Inl e \<Rightarrow> d \<le> t \<and> (\<exists>t0 tk. now \<le> t0 \<and> W rv t0 = (tk, Inl e) \<and> t = t0 + tk)
        | Inr w \<Rightarrow> (\<exists>t0 tk. now \<le> t0 \<and> W rv t0 = (tk, Inr w) \<and> t = t0 + tk)"
      proof (cases r')
        case (Inl e)
        with ih(1) obtain t0 tk where "d \<le> t'" "now + took + 2 \<le> t0" "W rv t0 = (tk, Inl e)"
          "t' = t0 + tk" by auto
        then have "d \<le> t \<and> now \<le> t0 \<and> W rv t0 = (tk, Inl e) \<and> t = t0 + tk"
          using eqs by simp
        then show ?thesis using Inl eqs by auto
      next
        case (Inr w')
        with ih(1) obtain t0 tk where "now + took + 2 \<le> t0" "W rv t0 = (tk, Inr w')"
          "t' = t0 + tk" by auto
        then have "now \<le> t0 \<and> W rv t0 = (tk, Inr w') \<and> t = t0 + tk"
          using eqs by simp
        then show ?thesis using Inr eqs by auto
      qed
      have b: "now + 2 * count_list l (Sleep 2) \<le> t" using ih(2) eqs by simp
      have c: "\<forall>x \<in> set l. x = Sleep 2
            \<or> (\<exists>e. x = Warningf (''Failed to connect events watcher: '' @ Error e))"
        using ih(3) eqs by auto
      from a b c show ?thesis by blast
    qed
  qed
qed

text \<open>
  C6, as the code has it: when a call of \<open>events.Watch\<close> fails and the deadline has not
  passed, the opener logs a warning, sleeps two seconds and calls again; when the call
  fails and the deadline has passed, the opener returns that call's own error. So an
  error returned by the opener is the transport error of its last call, returned at or
  after the deadline; a watcher returned is the one a call returned; every sleep is of
  two seconds, and the time at which the opener returns is at least two seconds per
  sleep after it started.
\<close>

theorem openWatch_retries_until_deadline:
  "(\<forall>took err. W rv now = (took, Inl err) \<and> now + took < d \<longrightarrow>
      openWatch W d rv now =
        (let (r, t, l) = openWatch W d rv (now + took + 2)
         in (r, t, Warningf (''Failed to connect events watcher: '' @ Error err) # Sleep 2 # l)))
   \<and> (\<forall>took err. W rv now = (took, Inl err) \<and> d \<le> now + took \<longrightarrow>
      openWatch W d rv now = (Inl err, now + took, []))
   \<and> (\<forall>e t l. openWatch W d rv now = (Inl e, t, l) \<longrightarrow>
        d \<le> t \<and> (\<exists>t0 took. now \<le> t0 \<and> W rv t0 = (took, Inl e) \<and> t = t0 + took))
   \<and> (\<forall>w t l. openWatch W d rv now = (Inr w, t, l) \<longrightarrow>
        (\<exists>t0 took. now \<le> t0 \<and> W rv t0 = (took, Inr w) \<and> t = t0 + took))
   \<and> (\<forall>r t l. openWatch W d rv now = (r, t, l) \<longrightarrow>
        now + 2 * count_list l (Sleep 2) \<le> t
        \<and> (\<forall>x \<in> set l. x = Sleep 2
              \<or> (\<exists>e. x = Warningf (''Failed to connect events watcher: '' @ Error e))))"
proof (intro conjI allI impI)
  fix took err assume "W rv now = (took, Inl err) \<and> now + took < d"
  then show "openWatch W d rv now =
        (let (r, t, l) = openWatch W d rv (now + took + 2)
         in (r, t, Warningf (''Failed to connect events watcher: '' @ Error err) # Sleep 2 # l))"
    by (simp add: openWatch.simps [of W d rv now])
next
  fix took err assume "W rv now = (took, Inl err) \<and> d \<le> now + took"
  then show "openWatch W d rv now = (Inl err, now + took, [])"
    by (simp add: openWatch.simps [of W d rv now])
next
  fix e t l assume "openWatch W d rv now = (Inl e, t, l)"
  from openWatch_result [OF this]
  show "d \<le> t" "\<exists>t0 took. now \<le> t0 \<and> W rv t0 = (took, Inl e) \<and> t = t0 + took" by auto
next
  fix w t l assume "openWatch W d rv now = (Inr w, t, l)"
  from openWatch_result [OF this]
  show "\<exists>t0 took. now \<le> t0 \<and> W rv t0 = (took, Inr w) \<and> t = t0 + took" by auto
next
  fix r t l assume "openWatch W d rv now = (r, t, l)"
  from openWatch_result [OF this]
  show "now + 2 * count_list l (Sleep 2) \<le> t"
    "\<forall>x \<in> set l. x = Sleep 2
         \<or> (\<exists>e. x = Warningf (''Failed to connect events watcher: '' @ Error e))" by auto
qed

lemma refused_run:
  "openWatch (Watch downCluster) 5 [] 0 =
     (Inl refusedError, 6,
      [Warningf (''Failed to connect events watcher: '' @ Error refusedError), Sleep 2,
       Warningf (''Failed to connect events watcher: '' @ Error refusedError), Sleep 2,
       Warningf (''Failed to connect events watcher: '' @ Error refusedError), Sleep 2])"
  by (simp add: openWatch.simps downCluster_def)


theorem openWatch_retries_until_deadline_witness:
  "Watch downCluster [] 0 = (0, Inl refusedError) \<and> (0::nat) + 0 < 5
   \<and> openWatch (Watch downCluster) 5 [] 0 =
       (Inl refusedError, 6,
        [Warningf (''Failed to connect events watcher: '' @ Error refusedError), Sleep 2,
         Warningf (''Failed to connect events watcher: '' @ Error refusedError), Sleep 2,
         Warningf (''Failed to connect events watcher: '' @ Error refusedError), Sleep 2])
   \<and> (5::nat) \<le> 6
   \<and> Watch downCluster [] 6 = (0, Inl refusedError)"
  using openWatch_retries_until_deadline [of "Watch downCluster" "[]" 0 5] refused_run
  by (simp add: downCluster_def)

text \<open>
  C6, as the claim states it, fails in its last part: with a deadline of 5 seconds and a
  watch that is always refused, the opener returns, at second 6, the connection-refused
  error of its last call, not a timeout error.
\<close>

theorem openWatch_timeout_counterexample:
  "fst (openWatch (Watch downCluster) 5 [] 0) = Inl refusedError
   \<and> snd (Watch downCluster [] 6) = Inl refusedError
   \<and> refusedError \<noteq> DeadlineExceeded
   \<and> Cause refusedError \<noteq> DeadlineExceeded"
  using refused_run by (simp add: downCluster_def refusedError_def)

section \<open>The two waits of destroyBootstrap\<close>

lemma apiPoll_result:
  "apiPoll q d now i st = (up, t, l) \<Longrightarrow>
   now \<le> t \<and> (\<not> up \<longrightarrow> d \<le> t)
   \<and> (up \<longrightarrow> (\<exists>j took v. q j = (took, Inr v) \<and> Infof (''API '' @ v @ '' up'') \<in> set l))"
proof (induction q d now i st arbitrary: up t l rule: apiPoll.induct)
  case (1 q d now i st)
  note unfold = apiPoll.simps [of q d now i st]
  show ?case
  proof (cases "d \<le> now")
    case True
    with "1.prems" show ?thesis by (auto simp: unfold)
  next
    case late: False
    obtain took r where q: "q i = (took, r)" by (cases "q i")
    show ?thesis
    proof (cases r)
      case (Inr v)
      with late q "1.prems" have "up" "t = now + took" "l = [Infof (''API '' @ v @ '' up'')]"
        by (auto simp: unfold)
      moreover have "q i = (took, Inr v)" using q Inr by simp
      ultimately show ?thesis by auto
    next
      case (Inl err)
      obtain st' l0 where qf: "queryFailed err st = (st', l0)" by (cases "queryFailed err st")
      show ?thesis
      proof (cases "d \<le> now + took + 2")
        case True
        with late q Inl qf "1.prems" show ?thesis by (auto simp: unfold)
      next
        case False
        obtain up' t' l' where rec: "apiPoll q d (now + took + 2) (Suc i) st' = (up', t', l')"
          by (cases "apiPoll q d (now + took + 2) (Suc i) st'")
        from "1.IH" [OF late q [symmetric] Inl refl qf [symmetric] False rec]
        have ih: "now + took + 2 \<le> t'" "\<not> up' \<longrightarrow> d \<le> t'"
          "up' \<longrightarrow> (\<exists>j tk v. q j = (tk, Inr v) \<and> Infof (''API '' @ v @ '' up'') \<in> set l')"
          by auto
        from late q Inl qf False rec "1.prems"
        have eqs: "up = up'" "t = t'" "l = l0 @ l'" by (auto simp: unfold)
        show ?thesis using ih eqs by auto
      qed
    qed
  qed
qed

text \<open>
  C2, as the code has it: once the client is built, \<open>destroyBootstrap\<close> waits for the
  API and then, whether a version query succeeded or the first deadline passed, waits
  for the bootstrap-complete event: \<open>Until\<close> is called at the time \<open>t1\<close> at which the
  first wait ended, with a deadline 30 minutes after \<open>t1\<close>, whatever the first wait
  took of its own 30 minutes, which are counted from the start. The first wait ends
  with the API up only after a query succeeded, and otherwise not before its deadline.
\<close>

theorem event_wait_follows_api_wait:
  "BuildConfigFromFlags cl = None \<Longrightarrow> NewForConfig cl = None \<Longrightarrow>
   apiPoll (ServerVersion cl) (now + apiTimeout) now 0 initialPollState = (up, t1, l1) \<Longrightarrow>
   Until (t1 + eventTimeout) t1 [] (openWatch (Watch cl) (t1 + eventTimeout)) bootstrapComplete
     = (err, t2, l2) \<Longrightarrow>
   destroyBootstrap Until None cl now =
     (case err of Some e \<Rightarrow> Some (Wrap e ''waiting for bootstrap-complete'') | None \<Rightarrow> Destroy cl,
      t2,
      Infof ''Waiting 30m0s for the Kubernetes API...'' # l1
        @ Infof ''Waiting 30m0s for the bootstrap-complete event...'' # l2
        @ (case err of Some e \<Rightarrow> [] | None \<Rightarrow> [Infof ''Destroying the bootstrap resources...'']))
   \<and> now \<le> t1
   \<and> (\<not> up \<longrightarrow> now + apiTimeout \<le> t1)
   \<and> (up \<longrightarrow> (\<exists>j took v. ServerVersion cl j = (took, Inr v)
                  \<and> Infof (''API '' @ v @ '' up'') \<in> set l1))
   \<and> (t1 + eventTimeout) - t1 = 30 * 60
   \<and> (now + apiTimeout) - now = 30 * 60"
proof -
  assume a: "BuildConfigFromFlags cl = None" "NewForConfig cl = None"
    and p: "apiPoll (ServerVersion cl) (now + apiTimeout) now 0 initialPollState = (up, t1, l1)"
    and u: "Until (t1 + eventTimeout) t1 [] (openWatch (Watch cl) (t1 + eventTimeout))
              bootstrapComplete = (err, t2, l2)"
  have d: "destroyBootstrap Until None cl now =
     (case err of Some e \<Rightarrow> Some (Wrap e ''waiting for bootstrap-complete'') | None \<Rightarrow> Destroy cl,
      t2,
      Infof ''Waiting 30m0s for the Kubernetes API...'' # l1
        @ Infof ''Waiting 30m0s for the bootstrap-complete event...'' # l2
        @ (case err of Some e \<Rightarrow> [] | None \<Rightarrow> [Infof ''Destroying the bootstrap resources...'']))"
    using a p u by (simp add: destroyBootstrap_def split: option.splits)
  have t: "(t1 + eventTimeout) - t1 = 30 * 60" "(now + apiTimeout) - now = 30 * 60"
    by (simp_all add: eventTimeout_def apiTimeout_def)
  from apiPoll_result [OF p] d t show ?thesis by blast
qed


lemma example_polls:
  "apiPoll (ServerVersion upCluster) (0 + apiTimeout) 0 0 initialPollState
     = (True, 7,
        [Debugf ''Still waiting for the Kubernetes API: Get https://api.test:6443/version: EOF'',
         Infof ''API v1.11.0 up''])"
  "apiPoll (ServerVersion slowCluster) (0 + apiTimeout) 0 0 initialPollState
     = (False, 2002,
        [Debugf ''Still waiting for the Kubernetes API: Get https://api.test:6443/version: EOF''])"
  by code_simp+

theorem event_wait_follows_api_wait_witness:
  "BuildConfigFromFlags upCluster = None \<and> NewForConfig upCluster = None
   \<and> apiPoll (ServerVersion upCluster) (0 + apiTimeout) 0 0 initialPollState
     = (True, 7,
        [Debugf ''Still waiting for the Kubernetes API: Get https://api.test:6443/version: EOF'',
         Infof ''API v1.11.0 up''])
   \<and> destroyBootstrap immediateUntil None upCluster 0
     = (None, 7,
        [Infof ''Waiting 30m0s for the Kubernetes API...'',
         Debugf ''Still waiting for the Kubernetes API: Get https://api.test:6443/version: EOF'',
         Infof ''API v1.11.0 up'',
         Infof ''Waiting 30m0s for the bootstrap-complete event...'',
         Infof ''Destroying the bootstrap resources...''])
   \<and> BuildConfigFromFlags slowCluster = None \<and> NewForConfig slowCluster = None
   \<and> apiPoll (ServerVersion slowCluster) (0 + apiTimeout) 0 0 initialPollState
     = (False, 2002,
        [Debugf ''Still waiting for the Kubernetes API: Get https://api.test:6443/version: EOF''])
   \<and> 0 + apiTimeout \<le> (2002::nat)
   \<and> destroyBootstrap expiringUntil None slowCluster 0
     = (Some (Wrap DeadlineExceeded ''waiting for bootstrap-complete''), 3802,
        [Infof ''Waiting 30m0s for the Kubernetes API...'',
         Debugf ''Still waiting for the Kubernetes API: Get https://api.test:6443/version: EOF'',
         Infof ''Waiting 30m0s for the bootstrap-complete event...''])"
  using event_wait_follows_api_wait [of upCluster 0 True 7 _ immediateUntil None 7 "[]",
          OF _ _ example_polls(1)]
        event_wait_follows_api_wait [of slowCluster 0 False 2002 _ expiringUntil
          "Some DeadlineExceeded" 3802 "[]", OF _ _ example_polls(2)]
        example_polls
  by (simp add: upCluster_def slowCluster_def immediateUntil_def expiringUntil_def
      eventTimeout_def apiTimeout_def)

text \<open>
  C2, as the claim states it, fails in its "only after success": when every version
  query fails (here after 1000 seconds each) the first wait ends at second 2002 without
  the API up, and the wait for the event begins all the same, with its own deadline at
  second 3802.
\<close>

theorem event_wait_without_api_counterexample:
  "apiPoll (ServerVersion slowCluster) (0 + apiTimeout) 0 0 initialPollState
     = (False, 2002,
        [Debugf ''Still waiting for the Kubernetes API: Get https://api.test:6443/version: EOF''])
   \<and> destroyBootstrap expiringUntil None slowCluster 0
     = (Some (Wrap DeadlineExceeded ''waiting for bootstrap-complete''), 3802,
        [Infof ''Waiting 30m0s for the Kubernetes API...'',
         Debugf ''Still waiting for the Kubernetes API: Get https://api.test:6443/version: EOF'',
         Infof ''Waiting 30m0s for the bootstrap-complete event...''])"
  using example_polls(2)
  by (simp add: destroyBootstrap_def slowCluster_def expiringUntil_def eventTimeout_def)

end
